theory Spec2Isabelle
  imports Complex_Main "HOL-Library.Word" "HOL-Library.Sublist"
begin

section \<open>Screenshot tools of firefox-devtools-mcp (src/tools/screenshot.ts)\<close>

text \<open>
  The module holds one private routine, \<open>buildScreenshotResponse\<close>, and two exported
  handlers, \<open>handleScreenshotPage\<close> and \<open>handleScreenshotByUid\<close>. They are embedded
  below as HOL functions:
  \<^item> run-time values of type \<open>unknown\<close> are values of the datatype \<open>jsval\<close>;
  \<^item> an awaited promise is an \<open>outcome\<close>: resolved with a value, rejected with an error,
    or never settled; a \<open>throw\<close> is the outcome \<open>Rejected\<close>, and \<open>try/catch\<close> is a case
    distinction on it;
  \<^item> the file system and the list of calls made to the browser-automation collaborator
    are a \<open>state\<close> that every step takes and returns;
  \<^item> what the module imports and this development does not have in source form (the two
    size limits, Node's \<open>path.resolve\<close>, the fate of a \<open>writeFile\<close>, the collaborator, the
    UID error translation) is a parameter.
\<close>

subsection \<open>JavaScript values\<close>

text \<open>
  Strings are lists of \<open>char\<close>; one \<open>char\<close> stands for one code unit, so \<open>length\<close> is
  \<open>String.prototype.length\<close> and \<open>take n\<close> is \<open>slice(0, n)\<close> for \<open>n \<ge> 0\<close>. Numbers are
  the integers from \<open>-2^53\<close> to \<open>2^53 - 1\<close>, a 54-bit word read as signed: a double holds
  each of them exactly and prints it in decimal. Objects are plain objects with own data
  properties, as \<open>JSON.parse\<close> gives them; no value is a function.
\<close>

datatype jsval =
    JUndefined
  | JNull
  | JBool bool
  | JNum "54 word"
  | JStr string
  | JArr "jsval list"
  | JObj "(string \<times> jsval) list"

datatype jserror = Error (message: string)

datatype 'a outcome = Resolved 'a | Rejected jserror | Pending

text \<open>ToBoolean, as used by \<open>if (v)\<close>, \<open>!v\<close> and \<open>v || d\<close>.\<close>

fun truthy :: "jsval \<Rightarrow> bool" where
  "truthy JUndefined = False"
| "truthy JNull = False"
| "truthy (JBool b) = b"
| "truthy (JNum n) = (n \<noteq> 0)"
| "truthy (JStr s) = (s \<noteq> [])"
| "truthy (JArr xs) = True"
| "truthy (JObj kvs) = True"

fun typeof :: "jsval \<Rightarrow> string" where
  "typeof JUndefined = ''undefined''"
| "typeof JNull = ''object''"
| "typeof (JBool b) = ''boolean''"
| "typeof (JNum n) = ''number''"
| "typeof (JStr s) = ''string''"
| "typeof (JArr xs) = ''object''"
| "typeof (JObj kvs) = ''object''"

text \<open>The characters of a value whose \<open>typeof\<close> is \<open>string\<close>.\<close>

fun string_of :: "jsval \<Rightarrow> string" where
  "string_of (JStr s) = s"
| "string_of v = []"

text \<open>
  Reading the property \<open>uid\<close> or \<open>filePath\<close> of a value that is neither \<open>undefined\<close> nor
  \<open>null\<close>: the object's own property, and \<open>undefined\<close> where there is none (primitives
  and arrays have no property of either name).
\<close>

fun property :: "jsval \<Rightarrow> string \<Rightarrow> jsval" where
  "property (JObj kvs) k = (case map_of kvs k of Some v \<Rightarrow> v | None \<Rightarrow> JUndefined)"
| "property v k = JUndefined"

text \<open>Decimal digits of a natural number.\<close>

fun digits :: "nat \<Rightarrow> string" where
  "digits n =
     (if n < 10 then [''0123456789'' ! n]
      else digits (n div 10) @ [''0123456789'' ! (n mod 10)])"

declare digits.simps [simp del]

text \<open>
  The decimal numeral of an integer. A number that is an integer of magnitude below
  \<open>10^21\<close> is converted to this string.
\<close>

definition decimal :: "int \<Rightarrow> string" where
  "decimal n = (if n < 0 then ''-'' @ digits (nat (- n)) else digits (nat n))"

text \<open>
  ToString, as applied by a template literal \<open>`${v}`\<close>. It throws a TypeError for an object
  with an own property \<open>toString\<close>: that property is not callable, and neither it nor
  \<open>valueOf\<close> then gives a primitive. An array is the comma-joined conversion of its
  elements, \<open>undefined\<close> and \<open>null\<close> giving the empty string; the first element that
  throws makes the whole conversion throw.
\<close>

fun toString :: "jsval \<Rightarrow> jserror + string"
  and join_elements :: "jsval list \<Rightarrow> jserror + string" where
  "toString JUndefined = Inr ''undefined''"
| "toString JNull = Inr ''null''"
| "toString (JBool b) = Inr (if b then ''true'' else ''false'')"
| "toString (JNum n) = Inr (decimal (sint n))"
| "toString (JStr s) = Inr s"
| "toString (JArr xs) = join_elements xs"
| "toString (JObj kvs) =
     (if map_of kvs ''toString'' = None then Inr ''[object Object]''
      else Inl (Error ''Cannot convert object to primitive value''))"
| "join_elements [] = Inr []"
| "join_elements (x # xs) =
     (case (if x = JUndefined \<or> x = JNull then Inr [] else toString x) of
        Inl e \<Rightarrow> Inl e
      | Inr s \<Rightarrow>
          if xs = [] then Inr s
          else (case join_elements xs of
                  Inl e \<Rightarrow> Inl e
                | Inr r \<Rightarrow> Inr (s @ '','' @ r)))"

text \<open>
  \<open>Math.round\<close> rounds to the nearest integer, a tie going up. Its argument below is
  \<open>length / 1024\<close>, a quotient by a power of two that floating point represents exactly.
  A string has fewer than \<open>2^53\<close> code units, so the rounded size is far below \<open>10^21\<close>
  and \<open>`${sizeKB}`\<close> is its decimal numeral.
\<close>

definition Math_round :: "real \<Rightarrow> int" where
  "Math_round x = \<lfloor>x + 1 / 2\<rfloor>"

text \<open>The camera emoji U+1F4F8 that opens every success message (its UTF-8 bytes).\<close>

definition camera :: string where
  "camera = [CHR 0xF0, CHR 0x9F, CHR 0x93, CHR 0xB8]"

subsection \<open>Node's base64 codec for buffers\<close>

type_synonym byte = "8 word"

definition base64_alphabet :: string where
  "base64_alphabet = ''ABCDEFGHIJKLMNOPQRSTUVWXYZabcdefghijklmnopqrstuvwxyz0123456789+/''"

definition base64_char :: "nat \<Rightarrow> char" where
  "base64_char n = base64_alphabet ! n"

fun index_of :: "char \<Rightarrow> string \<Rightarrow> nat option" where
  "index_of c [] = None"
| "index_of c (x # xs) = (if c = x then Some 0 else map_option Suc (index_of c xs))"

text \<open>The six bits of a legal character; the URL-safe \<open>-\<close> and \<open>_\<close> are legal too.\<close>

definition unbase64 :: "char \<Rightarrow> nat option" where
  "unbase64 c =
     (if c = CHR ''-'' then Some 62
      else if c = CHR ''_'' then Some 63
      else index_of c base64_alphabet)"

text \<open>\<open>buf.toString('base64')\<close>: three bytes give four characters, the rest is padded.\<close>

fun toString_base64 :: "byte list \<Rightarrow> string" where
  "toString_base64 (a # b # c # bs) =
     [base64_char (unat a div 4),
      base64_char (unat a mod 4 * 16 + unat b div 16),
      base64_char (unat b mod 16 * 4 + unat c div 64),
      base64_char (unat c mod 64)] @ toString_base64 bs"
| "toString_base64 [a, b] =
     [base64_char (unat a div 4),
      base64_char (unat a mod 4 * 16 + unat b div 16),
      base64_char (unat b mod 16 * 4),
      CHR ''='']"
| "toString_base64 [a] =
     [base64_char (unat a div 4), base64_char (unat a mod 4 * 16), CHR ''='', CHR ''='']"
| "toString_base64 [] = []"

text \<open>
  \<open>Buffer.from(s, 'base64')\<close> never fails: it skips every character that is not legal
  (white space, for one), stops at the first \<open>=\<close>, and turns the six-bit values into
  bytes, four at a time; two or three left over give one or two bytes, one gives none.
\<close>

fun sextets :: "string \<Rightarrow> nat list" where
  "sextets [] = []"
| "sextets (c # cs) =
     (if c = CHR ''='' then []
      else case unbase64 c of None \<Rightarrow> sextets cs | Some v \<Rightarrow> v # sextets cs)"

fun from_sextets :: "nat list \<Rightarrow> byte list" where
  "from_sextets (p # q # r # s # rest) =
     [of_nat (p * 4 + q div 16), of_nat (q mod 16 * 16 + r div 4), of_nat (r mod 4 * 64 + s)]
       @ from_sextets rest"
| "from_sextets [p, q, r] = [of_nat (p * 4 + q div 16), of_nat (q mod 16 * 16 + r div 4)]"
| "from_sextets [p, q] = [of_nat (p * 4 + q div 16)]"
| "from_sextets ps = []"

definition Buffer_from_base64 :: "string \<Rightarrow> byte list" where
  "Buffer_from_base64 s = from_sextets (sextets s)"

subsection \<open>Envelopes, limits, collaborators and state\<close>

text \<open>
  Modelled from the spec: utils/response-helpers.js, which declares the envelope and builds
  it, is not among the sources. The spec calls the envelope "a tagged success/error value
  produced by shared helpers; carries either a human-readable message [...] or an error
  description".
\<close>

datatype McpToolResponse = Success (content: string) | Failure (content: string)

text \<open>
  Modelled from the spec: \<open>successResponse\<close> of the absent utils/response-helpers.js; it
  wraps a message as the success envelope.
\<close>

definition successResponse :: "string \<Rightarrow> McpToolResponse" where
  "successResponse msg = Success msg"

text \<open>
  Modelled from the spec: \<open>errorResponse\<close> of the absent utils/response-helpers.js; it
  turns an error into "a uniform error envelope" that carries the "error description".
\<close>

definition errorResponse :: "jserror \<Rightarrow> McpToolResponse" where
  "errorResponse error = Failure (message error)"

text \<open>
  Modelled from the spec: the tag of the envelope, the \<open>isError\<close> of an
  \<open>McpToolResponse\<close> (types/common.js is absent as well).
\<close>

fun isError :: "McpToolResponse \<Rightarrow> bool" where
  "isError (Failure d) = True"
| "isError (Success m) = False"

text \<open>
  \<open>TOKEN_LIMITS\<close> comes from the same absent module; the two constants read here are
  parameters.
\<close>

record token_limits =
  MAX_SCREENSHOT_CHARS :: nat
  WARNING_THRESHOLD_CHARS :: nat

text \<open>The handle that \<open>getFirefox()\<close> gives, with its two capture operations.\<close>

record firefox =
  takeScreenshotPage :: "jsval outcome"
  takeScreenshotByUid :: "string \<Rightarrow> jsval outcome"

text \<open>
  How a \<open>writeFile(path, data)\<close> ends. Node opens the file for writing, which truncates
  it, writes the data and closes it. The promise resolves with the file holding the data;
  or it is rejected with an error, the file untouched when it could not be opened
  (\<open>None\<close>) and holding the first \<open>n\<close> bytes written when the failure came later
  (\<open>Some n\<close>); or it never settles, with the file in either of those conditions.
\<close>

datatype write_fate = Written | Failed string "nat option" | Hangs "nat option"

text \<open>
  What surrounds the module: \<open>path.resolve\<close> on a string, the message of the TypeError
  that \<open>path.resolve\<close> throws on anything else, the fate of writing given bytes to a
  path, and the outcome of \<open>import('../index.js')\<close> followed by \<open>getFirefox()\<close>.
\<close>

record world =
  resolve :: "string \<Rightarrow> string"
  invalid_path_message :: "jsval \<Rightarrow> string"
  writeFile_fate :: "string \<Rightarrow> byte list \<Rightarrow> write_fate"
  getFirefox :: "firefox outcome"

datatype call = GetFirefox | TakeScreenshotPage | TakeScreenshotByUid string

record state =
  files :: "string \<rightharpoonup> byte list"
  calls :: "call list"

definition path_resolve :: "world \<Rightarrow> jsval \<Rightarrow> jserror + string" where
  "path_resolve w p =
     (case p of
        JStr s \<Rightarrow> Inr (resolve w s)
      | _ \<Rightarrow> Inl (Error (invalid_path_message w p)))"

definition partly_written :: "nat option \<Rightarrow> string \<Rightarrow> byte list \<Rightarrow> state \<Rightarrow> state" where
  "partly_written progress path buffer st =
     (case progress of
        None \<Rightarrow> st
      | Some n \<Rightarrow> st\<lparr>files := (files st)(path \<mapsto> take n buffer)\<rparr>)"

definition writeFile ::
  "world \<Rightarrow> string \<Rightarrow> byte list \<Rightarrow> state \<Rightarrow> unit outcome \<times> state" where
  "writeFile w path buffer st =
     (case writeFile_fate w path buffer of
        Written \<Rightarrow> (Resolved (), st\<lparr>files := (files st)(path \<mapsto> buffer)\<rparr>)
      | Failed msg progress \<Rightarrow> (Rejected (Error msg), partly_written progress path buffer st)
      | Hangs progress \<Rightarrow> (Pending, partly_written progress path buffer st))"

definition readFile :: "state \<Rightarrow> string \<Rightarrow> byte list option" where
  "readFile st path = files st path"

definition call_getFirefox :: "world \<Rightarrow> state \<Rightarrow> firefox outcome \<times> state" where
  "call_getFirefox w st = (getFirefox w, st\<lparr>calls := calls st @ [GetFirefox]\<rparr>)"

definition call_takeScreenshotPage :: "firefox \<Rightarrow> state \<Rightarrow> jsval outcome \<times> state" where
  "call_takeScreenshotPage ff st =
     (takeScreenshotPage ff, st\<lparr>calls := calls st @ [TakeScreenshotPage]\<rparr>)"

definition call_takeScreenshotByUid ::
  "firefox \<Rightarrow> string \<Rightarrow> state \<Rightarrow> jsval outcome \<times> state" where
  "call_takeScreenshotByUid ff uid st =
     (takeScreenshotByUid ff uid, st\<lparr>calls := calls st @ [TakeScreenshotByUid uid]\<rparr>)"

text \<open>
  What the spec leaves open about the UID error translation: which failures are
  lookup-related, and the words before and after the UID in the message that replaces them.
\<close>

record uid_wording =
  lookup_related :: "jserror \<Rightarrow> bool"
  before_uid :: string
  after_uid :: string

text \<open>
  Modelled from the spec: utils/uid-helpers.js, with \<open>handleUidError\<close>, is not among the
  sources. The spec gives "a function (error, uid) -> Error that rewrites lookup-related
  failures into UID-contextualized messages", which "maps low-level lookup failures, e.g.
  'element not found,' into a more actionable message referencing the UID". The handler
  below takes the translation as a parameter, \<open>handleUidError\<close>.
\<close>

definition handleUidError_spec :: "uid_wording \<Rightarrow> jserror \<Rightarrow> string \<Rightarrow> jserror" where
  "handleUidError_spec k error uid =
     (if lookup_related k error then Error (before_uid k @ uid @ after_uid k) else error)"

subsection \<open>buildScreenshotResponse\<close>

text \<open>The body of the \<open>try\<close> block of the save-to-file branch.\<close>

definition buildScreenshotResponse_try ::
  "world \<Rightarrow> string \<Rightarrow> string \<Rightarrow> int \<Rightarrow> jsval \<Rightarrow> state
     \<Rightarrow> McpToolResponse outcome \<times> state" where
  "buildScreenshotResponse_try w base64Png label sizeKB filePath st =
     (case path_resolve w filePath of
        Inl error \<Rightarrow> (Rejected error, st)
      | Inr absolutePath \<Rightarrow>
          (case writeFile w absolutePath (Buffer_from_base64 base64Png) st of
             (Resolved u, st') \<Rightarrow>
               (Resolved (successResponse
                  (camera @ '' '' @ label @ '' ('' @ decimal sizeKB
                     @ ''KB) saved to '' @ absolutePath)), st')
           | (Rejected error, st') \<Rightarrow> (Rejected error, st')
           | (Pending, st') \<Rightarrow> (Pending, st')))"

text \<open>
  The function. The \<open>catch\<close> builds its message with a template literal on \<open>filePath\<close>; when
  that conversion throws, its TypeError is what the function throws.
\<close>

definition buildScreenshotResponse ::
  "token_limits \<Rightarrow> world \<Rightarrow> string \<Rightarrow> string \<Rightarrow> jsval \<Rightarrow> state
     \<Rightarrow> McpToolResponse outcome \<times> state" where
  "buildScreenshotResponse TOKEN_LIMITS w base64Png label filePath st =
     (let sizeKB = Math_round (real (length base64Png) / 1024) in
      if truthy filePath then
        (case buildScreenshotResponse_try w base64Png label sizeKB filePath st of
           (Rejected error, st') \<Rightarrow>
             (case toString filePath of
                Inl typeError \<Rightarrow> (Rejected typeError, st')
              | Inr shown \<Rightarrow>
                  (Rejected (Error (''Failed to save screenshot to '' @ shown
                                      @ '': '' @ message error)), st'))
         | (Resolved r, st') \<Rightarrow> (Resolved r, st')
         | (Pending, st') \<Rightarrow> (Pending, st'))
      else if length base64Png > MAX_SCREENSHOT_CHARS TOKEN_LIMITS then
        (let truncatedData = take (MAX_SCREENSHOT_CHARS TOKEN_LIMITS) base64Png in
         (Resolved (successResponse
            (camera @ '' '' @ label @ '' ('' @ decimal sizeKB
               @ ''KB) [truncated]'' @ [CHR 0x0A] @ truncatedData)), st))
      else
        (let warn =
           (if length base64Png > WARNING_THRESHOLD_CHARS TOKEN_LIMITS then '' [large]'' else [])
         in (Resolved (successResponse
               (camera @ '' '' @ label @ '' ('' @ decimal sizeKB
                  @ ''KB)'' @ warn @ [CHR 0x0A] @ base64Png)), st)))"

subsection \<open>handleScreenshotPage\<close>

text \<open>The body of the \<open>try\<close> block.\<close>

definition handleScreenshotPage_try ::
  "token_limits \<Rightarrow> world \<Rightarrow> jsval \<Rightarrow> state \<Rightarrow> McpToolResponse outcome \<times> state" where
  "handleScreenshotPage_try TOKEN_LIMITS w args st =
     (let filePath = property (if truthy args then args else JObj []) ''filePath'' in
      case call_getFirefox w st of
        (Pending, st1) \<Rightarrow> (Pending, st1)
      | (Rejected error, st1) \<Rightarrow> (Rejected error, st1)
      | (Resolved firefox, st1) \<Rightarrow>
          (case call_takeScreenshotPage firefox st1 of
             (Pending, st2) \<Rightarrow> (Pending, st2)
           | (Rejected error, st2) \<Rightarrow> (Rejected error, st2)
           | (Resolved base64Png, st2) \<Rightarrow>
               if \<not> truthy base64Png \<or> typeof base64Png \<noteq> ''string''
               then (Rejected (Error ''Invalid screenshot data''), st2)
               else buildScreenshotResponse TOKEN_LIMITS w (string_of base64Png) ''page'' filePath st2))"

text \<open>The handler: the \<open>catch\<close> turns whatever the body throws into an envelope.\<close>

definition handleScreenshotPage ::
  "token_limits \<Rightarrow> world \<Rightarrow> jsval \<Rightarrow> state \<Rightarrow> McpToolResponse outcome \<times> state" where
  "handleScreenshotPage TOKEN_LIMITS w args st =
     (case handleScreenshotPage_try TOKEN_LIMITS w args st of
        (Rejected error, st') \<Rightarrow> (Resolved (errorResponse error), st')
      | (Resolved r, st') \<Rightarrow> (Resolved r, st')
      | (Pending, st') \<Rightarrow> (Pending, st'))"

subsection \<open>handleScreenshotByUid\<close>

text \<open>The body of the inner \<open>try\<close> block, entered with the handle and a string \<open>uid\<close>.\<close>

definition handleScreenshotByUid_capture ::
  "token_limits \<Rightarrow> world \<Rightarrow> firefox \<Rightarrow> string \<Rightarrow> jsval \<Rightarrow> state
     \<Rightarrow> McpToolResponse outcome \<times> state" where
  "handleScreenshotByUid_capture TOKEN_LIMITS w firefox uid filePath st =
     (case call_takeScreenshotByUid firefox uid st of
        (Pending, st2) \<Rightarrow> (Pending, st2)
      | (Rejected error, st2) \<Rightarrow> (Rejected error, st2)
      | (Resolved base64Png, st2) \<Rightarrow>
          if \<not> truthy base64Png \<or> typeof base64Png \<noteq> ''string''
          then (Rejected (Error ''Invalid screenshot data''), st2)
          else buildScreenshotResponse TOKEN_LIMITS w (string_of base64Png) uid filePath st2)"

text \<open>
  The body of the outer \<open>try\<close> block. Destructuring \<open>undefined\<close> or \<open>null\<close> throws a
  TypeError (the message is V8's); the inner \<open>catch\<close> rethrows what \<open>handleUidError\<close>
  returns.
\<close>

definition handleScreenshotByUid_try ::
  "(jserror \<Rightarrow> string \<Rightarrow> jserror) \<Rightarrow> token_limits \<Rightarrow> world \<Rightarrow> jsval \<Rightarrow> state
     \<Rightarrow> McpToolResponse outcome \<times> state" where
  "handleScreenshotByUid_try handleUidError TOKEN_LIMITS w args st =
     (if args = JUndefined \<or> args = JNull
      then (Rejected (Error (''Cannot destructure property 'uid' of 'args' as it is ''
                               @ (if args = JUndefined then ''undefined'' else ''null'')
                               @ ''.'')), st)
      else
        (let uid = property args ''uid''; filePath = property args ''filePath'' in
         if \<not> truthy uid \<or> typeof uid \<noteq> ''string''
         then (Rejected (Error ''uid required''), st)
         else
           (case call_getFirefox w st of
              (Pending, st1) \<Rightarrow> (Pending, st1)
            | (Rejected error, st1) \<Rightarrow> (Rejected error, st1)
            | (Resolved firefox, st1) \<Rightarrow>
                (case handleScreenshotByUid_capture TOKEN_LIMITS w firefox (string_of uid) filePath st1 of
                   (Rejected error, st2) \<Rightarrow> (Rejected (handleUidError error (string_of uid)), st2)
                 | (Resolved r, st2) \<Rightarrow> (Resolved r, st2)
                 | (Pending, st2) \<Rightarrow> (Pending, st2)))))"

definition handleScreenshotByUid ::
  "(jserror \<Rightarrow> string \<Rightarrow> jserror) \<Rightarrow> token_limits \<Rightarrow> world \<Rightarrow> jsval \<Rightarrow> state
     \<Rightarrow> McpToolResponse outcome \<times> state" where
  "handleScreenshotByUid handleUidError TOKEN_LIMITS w args st =
     (case handleScreenshotByUid_try handleUidError TOKEN_LIMITS w args st of
        (Rejected error, st') \<Rightarrow> (Resolved (errorResponse error), st')
      | (Resolved r, st') \<Rightarrow> (Resolved r, st')
      | (Pending, st') \<Rightarrow> (Pending, st'))"

subsection \<open>Concrete surroundings for the worked instances\<close>

text \<open>
  Limits of four and two characters; a world whose working directory is \<open>/work\<close> (its
  \<open>resolve\<close> is right for paths without dot segments or doubled slashes), where no file
  below \<open>/ro/\<close> can be opened for writing and every other write goes through, and whose collaborator answers every capture with the
  given outcome; a wording for the UID translation; a state with no file and no call.
\<close>

definition example_limits :: token_limits where
  "example_limits = \<lparr>MAX_SCREENSHOT_CHARS = 4, WARNING_THRESHOLD_CHARS = 2\<rparr>"

definition example_world :: "jsval outcome \<Rightarrow> world" where
  "example_world capture =
     \<lparr>resolve = (\<lambda>p. if take 1 p = ''/'' then p else ''/work/'' @ p),
      invalid_path_message = (\<lambda>v. ''The paths[0] argument must be of type string''),
      writeFile_fate =
        (\<lambda>p b. if take 4 p = ''/ro/'' then Failed ''EACCES: permission denied'' None
               else Written),
      getFirefox =
        Resolved \<lparr>takeScreenshotPage = capture, takeScreenshotByUid = (\<lambda>uid. capture)\<rparr>\<rparr>"

definition example_wording :: uid_wording where
  "example_wording =
     \<lparr>lookup_related = (\<lambda>e. sublist ''not found'' (message e)),
      before_uid = ''Element '', after_uid = '' is stale; take a new snapshot''\<rparr>"

definition initial_state :: state where
  "initial_state = \<lparr>files = Map.empty, calls = []\<rparr>"

section \<open>Auxiliary facts\<close>

subsection \<open>The size annotation\<close>

lemma Math_round_div_1024: "Math_round (real n / 1024) = int ((n + 512) div 1024)"
proof -
  have "real n / 1024 + 1 / 2 = real (n + 512) / real 1024" by simp
  then show ?thesis unfolding Math_round_def by (simp only: floor_divide_of_nat_eq)
qed

lemma decimal_sizeKB:
  "decimal (Math_round (real n / 1024)) = digits ((n + 512) div 1024)"
  by (simp add: Math_round_div_1024 decimal_def)

lemma digits_small: "n < 10 \<Longrightarrow> digits n = [''0123456789'' ! n]"
  by (simp add: digits.simps)

subsection \<open>The branches of buildScreenshotResponse, with the size as a quotient\<close>

lemma filePath_cases [case_names inline string other]:
  obtains "\<not> truthy filePath"
  | p where "filePath = JStr p" and "p \<noteq> []"
  | "truthy filePath" and "typeof filePath \<noteq> ''string''"
  by (cases filePath) auto

lemma buildScreenshotResponse_inline:
  "\<not> truthy filePath \<Longrightarrow>
   buildScreenshotResponse L w base64Png label filePath st =
     (if length base64Png > MAX_SCREENSHOT_CHARS L then
        (Resolved (successResponse
           (camera @ '' '' @ label @ '' ('' @ digits ((length base64Png + 512) div 1024)
              @ ''KB) [truncated]'' @ [CHR 0x0A] @ take (MAX_SCREENSHOT_CHARS L) base64Png)), st)
      else
        (Resolved (successResponse
           (camera @ '' '' @ label @ '' ('' @ digits ((length base64Png + 512) div 1024)
              @ ''KB)'' @ (if length base64Png > WARNING_THRESHOLD_CHARS L then '' [large]'' else [])
              @ [CHR 0x0A] @ base64Png)), st))"
  unfolding buildScreenshotResponse_def Let_def decimal_sizeKB
  by simp

lemma buildScreenshotResponse_written:
  assumes "p \<noteq> []"
    and "writeFile_fate w (resolve w p) (Buffer_from_base64 base64Png) = Written"
  shows "buildScreenshotResponse L w base64Png label (JStr p) st
           = (Resolved (successResponse
                (camera @ '' '' @ label @ '' ('' @ digits ((length base64Png + 512) div 1024)
                   @ ''KB) saved to '' @ resolve w p)),
              st\<lparr>files := (files st)(resolve w p \<mapsto> Buffer_from_base64 base64Png)\<rparr>)"
  using assms
  unfolding buildScreenshotResponse_def Let_def decimal_sizeKB buildScreenshotResponse_try_def
    path_resolve_def writeFile_def
  by simp

lemma buildScreenshotResponse_refused:
  assumes "p \<noteq> []"
    and "writeFile_fate w (resolve w p) (Buffer_from_base64 base64Png) = Failed cause progress"
  shows "buildScreenshotResponse L w base64Png label (JStr p) st
           = (Rejected (Error (''Failed to save screenshot to '' @ p @ '': '' @ cause)),
              partly_written progress (resolve w p) (Buffer_from_base64 base64Png) st)"
  using assms
  unfolding buildScreenshotResponse_def Let_def buildScreenshotResponse_try_def
    path_resolve_def writeFile_def
  by simp

lemma buildScreenshotResponse_hangs:
  assumes "p \<noteq> []"
    and "writeFile_fate w (resolve w p) (Buffer_from_base64 base64Png) = Hangs progress"
  shows "buildScreenshotResponse L w base64Png label (JStr p) st
           = (Pending, partly_written progress (resolve w p) (Buffer_from_base64 base64Png) st)"
  using assms
  unfolding buildScreenshotResponse_def Let_def buildScreenshotResponse_try_def
    path_resolve_def writeFile_def
  by simp

lemma buildScreenshotResponse_not_string:
  assumes "truthy filePath" and "typeof filePath \<noteq> ''string''"
  shows "buildScreenshotResponse L w base64Png label filePath st
           = (case toString filePath of
                Inl typeError \<Rightarrow> (Rejected typeError, st)
              | Inr shown \<Rightarrow>
                  (Rejected (Error (''Failed to save screenshot to '' @ shown @ '': ''
                                      @ invalid_path_message w filePath)), st))"
proof -
  from assms(2) have "path_resolve w filePath = Inl (Error (invalid_path_message w filePath))"
    by (cases filePath) (simp_all add: path_resolve_def)
  with assms(1) show ?thesis
    unfolding buildScreenshotResponse_def Let_def buildScreenshotResponse_try_def
    by (simp split: sum.splits)
qed

subsection \<open>Decoding what the encoder wrote\<close>

lemma distinct_base64_alphabet: "distinct base64_alphabet"
  unfolding base64_alphabet_def by simp

lemma length_base64_alphabet: "length base64_alphabet = 64"
  unfolding base64_alphabet_def by simp

lemma index_of_nth: "distinct xs \<Longrightarrow> n < length xs \<Longrightarrow> index_of (xs ! n) xs = Some n"
proof (induction xs arbitrary: n)
  case Nil
  then show ?case by simp
next
  case (Cons x xs)
  show ?case
  proof (cases n)
    case 0
    then show ?thesis by simp
  next
    case (Suc m)
    with Cons.prems have "m < length xs" and "distinct xs" and "xs ! m \<noteq> x"
      by auto
    with Cons.IH Suc show ?thesis by simp
  qed
qed

lemma base64_alphabet_chars:
  assumes "c \<in> set base64_alphabet"
  shows "c \<noteq> CHR ''=''" and "c \<noteq> CHR ''-''" and "c \<noteq> CHR ''_''"
proof -
  have "CHR ''='' \<notin> set base64_alphabet" "CHR ''-'' \<notin> set base64_alphabet"
    "CHR ''_'' \<notin> set base64_alphabet"
    unfolding base64_alphabet_def by simp_all
  with assms show "c \<noteq> CHR ''=''" and "c \<noteq> CHR ''-''" and "c \<noteq> CHR ''_''"
    by blast+
qed

lemma base64_char_in_alphabet: "n < 64 \<Longrightarrow> base64_char n \<in> set base64_alphabet"
  by (simp add: base64_char_def length_base64_alphabet)

lemma unbase64_base64_char: "n < 64 \<Longrightarrow> unbase64 (base64_char n) = Some n"
  using base64_alphabet_chars [OF base64_char_in_alphabet, of n]
    index_of_nth [OF distinct_base64_alphabet, of n]
  by (simp add: unbase64_def length_base64_alphabet) (simp add: base64_char_def)

lemma sextets_base64_char: "n < 64 \<Longrightarrow> sextets (base64_char n # cs) = n # sextets cs"
  using base64_alphabet_chars(1) [OF base64_char_in_alphabet, of n]
  by (simp add: unbase64_base64_char)

lemma sextets_pad: "sextets (CHR ''='' # cs) = []"
  by simp

lemma unat_byte: "unat (a :: byte) < 256"
  using unsigned_less [of a] by simp

lemma of_nat_unat_byte: "(of_nat (unat a) :: byte) = a"
  by simp

lemma regroup_first: "b < 256 \<Longrightarrow> (a div 4) * 4 + (a mod 4 * 16 + b div 16) div 16 = (a::nat)"
proof -
  assume "b < 256"
  then have "b div 16 < 16" by simp
  then have "(a mod 4 * 16 + b div 16) div 16 = a mod 4" by simp
  then show ?thesis by simp
qed

lemma regroup_second:
  "b < 256 \<Longrightarrow> c < 256 \<Longrightarrow>
   (a mod 4 * 16 + b div 16) mod 16 * 16 + (b mod 16 * 4 + c div 64) div 4 = (b::nat)"
proof -
  assume "b < 256" "c < 256"
  then have 1: "b div 16 < 16" and 2: "c div 64 < 4" by simp_all
  from 1 have "(a mod 4 * 16 + b div 16) mod 16 = b div 16" by simp
  moreover from 2 have "(b mod 16 * 4 + c div 64) div 4 = b mod 16" by simp
  ultimately show ?thesis by simp
qed

lemma regroup_third: "c < 256 \<Longrightarrow> (b mod 16 * 4 + c div 64) mod 4 * 64 + c mod 64 = (c::nat)"
proof -
  assume "c < 256"
  then have "c div 64 < 4" by simp
  then have "(b mod 16 * 4 + c div 64) mod 4 = c div 64" by simp
  then show ?thesis by simp
qed

lemma sextet_bounds:
  fixes a b c :: nat
  assumes "a < 256" "b < 256" "c < 256"
  shows "a div 4 < 64" "a mod 4 * 16 + b div 16 < 64" "b mod 16 * 4 + c div 64 < 64"
    "c mod 64 < 64" "a mod 4 * 16 < 64" "b mod 16 * 4 < 64"
proof -
  from assms have "a div 4 < 64" "b div 16 < 16" "c div 64 < 4" by simp_all
  moreover have "a mod 4 < 4" "b mod 16 < 16" by simp_all
  ultimately show "a div 4 < 64" "a mod 4 * 16 + b div 16 < 64" "b mod 16 * 4 + c div 64 < 64"
    "c mod 64 < 64" "a mod 4 * 16 < 64" "b mod 16 * 4 < 64"
    by linarith+
qed

lemma from_sextets_three:
  fixes a b c :: byte
  shows "from_sextets (unat a div 4 # (unat a mod 4 * 16 + unat b div 16)
           # (unat b mod 16 * 4 + unat c div 64) # unat c mod 64 # rest)
         = a # b # c # from_sextets rest"
proof -
  have 1: "unat a div 4 * 4 + (unat a mod 4 * 16 + unat b div 16) div 16 = unat a"
    by (rule regroup_first [OF unat_byte])
  have 2: "(unat a mod 4 * 16 + unat b div 16) mod 16 * 16
             + (unat b mod 16 * 4 + unat c div 64) div 4 = unat b"
    by (rule regroup_second [OF unat_byte unat_byte])
  have 3: "(unat b mod 16 * 4 + unat c div 64) mod 4 * 64 + unat c mod 64 = unat c"
    by (rule regroup_third [OF unat_byte])
  show ?thesis
    by (simp only: from_sextets.simps 1 2 3 of_nat_unat_byte append.simps)
qed

lemma from_sextets_two:
  fixes a b :: byte
  shows "from_sextets [unat a div 4, unat a mod 4 * 16 + unat b div 16, unat b mod 16 * 4]
         = [a, b]"
proof -
  have 1: "unat a div 4 * 4 + (unat a mod 4 * 16 + unat b div 16) div 16 = unat a"
    by (rule regroup_first [OF unat_byte])
  have 2: "(unat a mod 4 * 16 + unat b div 16) mod 16 * 16 + (unat b mod 16 * 4) div 4 = unat b"
    using regroup_second [OF unat_byte, of 0 "unat a" b] by simp
  show ?thesis
    by (simp only: from_sextets.simps 1 2 of_nat_unat_byte)
qed

lemma from_sextets_one:
  fixes a :: byte
  shows "from_sextets [unat a div 4, unat a mod 4 * 16] = [a]"
proof -
  have 1: "unat a div 4 * 4 + (unat a mod 4 * 16) div 16 = unat a"
    by simp
  show ?thesis
    by (simp only: from_sextets.simps 1 of_nat_unat_byte)
qed

lemma from_sextets_toString_base64: "from_sextets (sextets (toString_base64 bs)) = bs"
proof (induction bs rule: toString_base64.induct)
  case (1 a b c bs)
  note bd = sextet_bounds [OF unat_byte [of a] unat_byte [of b] unat_byte [of c]]
  have "sextets (toString_base64 (a # b # c # bs)) =
          unat a div 4 # (unat a mod 4 * 16 + unat b div 16)
           # (unat b mod 16 * 4 + unat c div 64) # unat c mod 64 # sextets (toString_base64 bs)"
    by (simp add: sextets_base64_char bd del: sextets.simps)
  then show ?case
    using "1.IH" by (simp only: from_sextets_three)
next
  case (2 a b)
  note bd = sextet_bounds [OF unat_byte [of a] unat_byte [of b] unat_byte [of b]]
  have "sextets (toString_base64 [a, b]) =
          [unat a div 4, unat a mod 4 * 16 + unat b div 16, unat b mod 16 * 4]"
    by (simp add: sextets_base64_char sextets_pad bd del: sextets.simps(2))
  then show ?case
    by (simp only: from_sextets_two)
next
  case (3 a)
  note bd = sextet_bounds [OF unat_byte [of a] unat_byte [of a] unat_byte [of a]]
  have "sextets (toString_base64 [a]) = [unat a div 4, unat a mod 4 * 16]"
    by (simp add: sextets_base64_char sextets_pad bd del: sextets.simps(2))
  then show ?case
    by (simp only: from_sextets_one)
next
  case 4
  show ?case by simp
qed

lemma Buffer_from_base64_toString_base64: "Buffer_from_base64 (toString_base64 bs) = bs"
  by (simp add: Buffer_from_base64_def from_sextets_toString_base64)

lemma Buffer_from_base64_QUI: "Buffer_from_base64 ''QUI'' = [0x41, 0x42]"
  by (simp add: Buffer_from_base64_def unbase64_def base64_alphabet_def)

lemma toString_base64_AB: "toString_base64 [0x41, 0x42] = ''QUI=''"
  by (simp add: base64_alphabet_def base64_char_def)

subsection \<open>A refused write\<close>

lemma example_write_refused:
  "buildScreenshotResponse L (example_world capture) base64Png label (JStr ''/ro/x.png'') st
   = (Rejected (Error ''Failed to save screenshot to /ro/x.png: EACCES: permission denied''), st)"
  using buildScreenshotResponse_refused [of "''/ro/x.png''" "example_world capture" base64Png
      "''EACCES: permission denied''" None L label st]
  by (simp add: example_world_def partly_written_def)

lemma example_getFirefox:
  "getFirefox (example_world capture)
     = Resolved \<lparr>takeScreenshotPage = capture, takeScreenshotByUid = (\<lambda>uid. capture)\<rparr>"
  by (simp add: example_world_def)

subsection \<open>The handlers, step by step\<close>

lemma handleScreenshotByUid_try_no_uid:
  assumes "property args ''uid'' = JStr [] \<or> typeof (property args ''uid'') \<noteq> ''string''"
  shows "handleScreenshotByUid_try h L w args st =
           (if args = JUndefined \<or> args = JNull
            then (Rejected (Error (''Cannot destructure property 'uid' of 'args' as it is ''
                                     @ (if args = JUndefined then ''undefined'' else ''null'')
                                     @ ''.'')), st)
            else (Rejected (Error ''uid required''), st))"
  using assms unfolding handleScreenshotByUid_try_def Let_def by auto

lemma handleScreenshotByUid_try_with_uid:
  assumes "property args ''uid'' = JStr uid" and "uid \<noteq> []"
    and "getFirefox w = Resolved ff"
  shows "handleScreenshotByUid_try h L w args st =
           (case handleScreenshotByUid_capture L w ff uid (property args ''filePath'')
                   (st\<lparr>calls := calls st @ [GetFirefox]\<rparr>) of
              (Rejected error, st2) \<Rightarrow> (Rejected (h error uid), st2)
            | (Resolved r, st2) \<Rightarrow> (Resolved r, st2)
            | (Pending, st2) \<Rightarrow> (Pending, st2))"
proof -
  from assms(1) have "args \<noteq> JUndefined" and "args \<noteq> JNull"
    by auto
  with assms show ?thesis
    unfolding handleScreenshotByUid_try_def Let_def call_getFirefox_def
    by (simp split: prod.splits outcome.splits)
qed

lemma handleScreenshotByUid_capture_rejected:
  "takeScreenshotByUid ff uid = Rejected e \<Longrightarrow>
   handleScreenshotByUid_capture L w ff uid filePath st
     = (Rejected e, st\<lparr>calls := calls st @ [TakeScreenshotByUid uid]\<rparr>)"
  by (simp add: handleScreenshotByUid_capture_def call_takeScreenshotByUid_def)

lemma handleScreenshotByUid_capture_resolved:
  "takeScreenshotByUid ff uid = Resolved v \<Longrightarrow>
   handleScreenshotByUid_capture L w ff uid filePath st
     = (if \<not> truthy v \<or> typeof v \<noteq> ''string''
        then (Rejected (Error ''Invalid screenshot data''),
              st\<lparr>calls := calls st @ [TakeScreenshotByUid uid]\<rparr>)
        else buildScreenshotResponse L w (string_of v) uid filePath
               (st\<lparr>calls := calls st @ [TakeScreenshotByUid uid]\<rparr>))"
  by (simp add: handleScreenshotByUid_capture_def call_takeScreenshotByUid_def)

lemma handleScreenshotPage_try_resolved:
  "getFirefox w = Resolved ff \<Longrightarrow> takeScreenshotPage ff = Resolved v \<Longrightarrow>
   handleScreenshotPage_try L w args st
     = (if \<not> truthy v \<or> typeof v \<noteq> ''string''
        then (Rejected (Error ''Invalid screenshot data''),
              st\<lparr>calls := calls st @ [GetFirefox, TakeScreenshotPage]\<rparr>)
        else buildScreenshotResponse L w (string_of v) ''page''
               (property (if truthy args then args else JObj []) ''filePath'')
               (st\<lparr>calls := calls st @ [GetFirefox, TakeScreenshotPage]\<rparr>))"
  by (simp add: handleScreenshotPage_try_def call_getFirefox_def call_takeScreenshotPage_def
      Let_def)

lemma handleScreenshotPage_try_no_handle:
  "getFirefox w = Rejected e \<Longrightarrow>
   handleScreenshotPage_try L w args st = (Rejected e, st\<lparr>calls := calls st @ [GetFirefox]\<rparr>)"
  by (simp add: handleScreenshotPage_try_def call_getFirefox_def)

lemma handleScreenshotPage_try_rejected:
  "getFirefox w = Resolved ff \<Longrightarrow> takeScreenshotPage ff = Rejected e \<Longrightarrow>
   handleScreenshotPage_try L w args st
     = (Rejected e, st\<lparr>calls := calls st @ [GetFirefox, TakeScreenshotPage]\<rparr>)"
  by (simp add: handleScreenshotPage_try_def call_getFirefox_def call_takeScreenshotPage_def)

lemma handleScreenshotByUid_try_no_handle:
  assumes "property args ''uid'' = JStr uid" and "uid \<noteq> []"
    and "getFirefox w = Rejected e"
  shows "handleScreenshotByUid_try h L w args st
           = (Rejected e, st\<lparr>calls := calls st @ [GetFirefox]\<rparr>)"
proof -
  from assms(1) have "args \<noteq> JUndefined" and "args \<noteq> JNull"
    by auto
  with assms show ?thesis
    unfolding handleScreenshotByUid_try_def Let_def call_getFirefox_def
    by simp
qed

text \<open>
  With arguments that are neither \<open>undefined\<close> nor \<open>null\<close>, a \<open>uid\<close> that is the empty
  string, absent or not a string is answered with \<open>uid required\<close>, and in every case with
  an error envelope and no call.
\<close>

lemma handleScreenshotByUid_uid_required:
  assumes "property args ''uid'' = JStr [] \<or> typeof (property args ''uid'') \<noteq> ''string''"
  shows "(\<exists>r. handleScreenshotByUid h L w args st = (Resolved r, st) \<and> isError r)
         \<and> (args \<noteq> JUndefined \<and> args \<noteq> JNull \<longrightarrow>
               handleScreenshotByUid h L w args st
                 = (Resolved (errorResponse (Error ''uid required'')), st))"
proof (intro conjI impI)
  show "\<exists>r. handleScreenshotByUid h L w args st = (Resolved r, st) \<and> isError r"
    unfolding handleScreenshotByUid_def handleScreenshotByUid_try_no_uid [OF assms]
    by (simp add: errorResponse_def)
next
  assume "args \<noteq> JUndefined \<and> args \<noteq> JNull"
  then show "handleScreenshotByUid h L w args st
                 = (Resolved (errorResponse (Error ''uid required'')), st)"
    unfolding handleScreenshotByUid_def handleScreenshotByUid_try_no_uid [OF assms]
    by simp
qed

lemma sublist_middle: "sublist ys (xs @ ys @ zs)"
  unfolding sublist_def by blast

section \<open>The claims\<close>

text \<open>
  C1 (as amended). For every base64 string whose length is strictly above
  \<open>MAX_SCREENSHOT_CHARS\<close>, \<open>buildScreenshotResponse\<close> called without a file path
  returns a success envelope whose message is annotated \<open>[truncated]\<close> and whose data is
  a prefix of the input of exactly \<open>MAX_SCREENSHOT_CHARS\<close> characters.
\<close>

theorem C1_truncated_above_max:
  assumes "MAX_SCREENSHOT_CHARS L < length base64Png"
  shows "\<exists>data. buildScreenshotResponse L w base64Png label JUndefined st
           = (Resolved (successResponse
                (camera @ '' '' @ label @ '' ('' @ digits ((length base64Png + 512) div 1024)
                   @ ''KB) [truncated]'' @ [CHR 0x0A] @ data)), st)
         \<and> prefix data base64Png \<and> length data = MAX_SCREENSHOT_CHARS L"
proof (intro exI conjI)
  show "buildScreenshotResponse L w base64Png label JUndefined st
           = (Resolved (successResponse
                (camera @ '' '' @ label @ '' ('' @ digits ((length base64Png + 512) div 1024)
                   @ ''KB) [truncated]'' @ [CHR 0x0A]
                   @ take (MAX_SCREENSHOT_CHARS L) base64Png)), st)"
    using assms by (simp add: buildScreenshotResponse_inline)
  show "prefix (take (MAX_SCREENSHOT_CHARS L) base64Png) base64Png"
    by (rule take_is_prefix)
  show "length (take (MAX_SCREENSHOT_CHARS L) base64Png) = MAX_SCREENSHOT_CHARS L"
    using assms by simp
qed

theorem C1_truncated_above_max_witness:
  "MAX_SCREENSHOT_CHARS example_limits < length ''QUJDRA==''
   \<and> (\<exists>data. buildScreenshotResponse example_limits (example_world Pending) ''QUJDRA==''
                ''page'' JUndefined initial_state
           = (Resolved (successResponse
                (camera @ '' '' @ ''page'' @ '' ('' @ digits ((length ''QUJDRA=='' + 512) div 1024)
                   @ ''KB) [truncated]'' @ [CHR 0x0A] @ data)), initial_state)
         \<and> prefix data ''QUJDRA=='' \<and> length data = MAX_SCREENSHOT_CHARS example_limits)"
proof -
  have h: "MAX_SCREENSHOT_CHARS example_limits < length ''QUJDRA==''"
    by (simp add: example_limits_def)
  show ?thesis
    using h C1_truncated_above_max [OF h, of "example_world Pending" "''page''" initial_state]
    by blast
qed

text \<open>
  C1 as stated fails at a length equal to the maximum: the test is \<open>length > MAX\<close>, so
  four characters under a maximum of four come back whole, annotated \<open>[large]\<close>.
\<close>

theorem C1_at_max_not_truncated:
  "MAX_SCREENSHOT_CHARS example_limits \<le> length ''AAAA''
   \<and> fst (buildScreenshotResponse example_limits (example_world Pending) ''AAAA'' ''page''
            JUndefined initial_state)
       = Resolved (Success (camera @ '' page (0KB) [large]'' @ [CHR 0x0A] @ ''AAAA''))
   \<and> \<not> sublist ''[truncated]'' (camera @ '' page (0KB) [large]'' @ [CHR 0x0A] @ ''AAAA'')"
  by (simp add: buildScreenshotResponse_inline example_limits_def digits_small
      successResponse_def camera_def sublist_Cons_right)

text \<open>
  C6. For every base64 string whose length is strictly between \<open>WARNING_THRESHOLD_CHARS\<close>
  and \<open>MAX_SCREENSHOT_CHARS\<close>, \<open>buildScreenshotResponse\<close> without a file path returns
  a success envelope whose message is annotated \<open>[large]\<close> and carries the whole input.
\<close>

theorem C6_large_between_thresholds:
  assumes "WARNING_THRESHOLD_CHARS L < length base64Png"
    and "length base64Png < MAX_SCREENSHOT_CHARS L"
  shows "buildScreenshotResponse L w base64Png label JUndefined st
           = (Resolved (successResponse
                (camera @ '' '' @ label @ '' ('' @ digits ((length base64Png + 512) div 1024)
                   @ ''KB) [large]'' @ [CHR 0x0A] @ base64Png)), st)"
  using assms by (simp add: buildScreenshotResponse_inline)

theorem C6_large_between_thresholds_witness:
  "WARNING_THRESHOLD_CHARS example_limits < length ''QUI''
   \<and> length ''QUI'' < MAX_SCREENSHOT_CHARS example_limits
   \<and> buildScreenshotResponse example_limits (example_world Pending) ''QUI'' ''page''
         JUndefined initial_state
       = (Resolved (Success (camera @ '' page (0KB) [large]'' @ [CHR 0x0A] @ ''QUI'')),
          initial_state)"
proof -
  have h1: "WARNING_THRESHOLD_CHARS example_limits < length ''QUI''"
    by (simp add: example_limits_def)
  have h2: "length ''QUI'' < MAX_SCREENSHOT_CHARS example_limits"
    by (simp add: example_limits_def)
  have d: "digits ((length ''QUI'' + 512) div 1024) = ''0''"
    by (simp add: digits_small)
  have "buildScreenshotResponse example_limits (example_world Pending) ''QUI'' ''page''
         JUndefined initial_state
       = (Resolved (Success (camera @ '' page (0KB) [large]'' @ [CHR 0x0A] @ ''QUI'')),
          initial_state)"
    unfolding C6_large_between_thresholds [OF h1 h2] d successResponse_def by simp
  with h1 h2 show ?thesis by (intro conjI)
qed

text \<open>
  C8. An empty string as file path does not take the save-to-file branch: the call
  equals the call without a file path, leaves the state as it was, and returns the data
  inline (all of it, or its first \<open>MAX_SCREENSHOT_CHARS\<close> characters) after the size
  annotation.
\<close>

theorem C8_empty_path_is_inline:
  "buildScreenshotResponse L w base64Png label (JStr []) st
     = buildScreenshotResponse L w base64Png label JUndefined st
   \<and> snd (buildScreenshotResponse L w base64Png label (JStr []) st) = st
   \<and> (\<exists>annotation.
         fst (buildScreenshotResponse L w base64Png label (JStr []) st)
           = Resolved (successResponse
               (camera @ '' '' @ label @ '' ('' @ digits ((length base64Png + 512) div 1024)
                  @ ''KB)'' @ annotation @ [CHR 0x0A] @ take (MAX_SCREENSHOT_CHARS L) base64Png)))"
proof (intro conjI)
  show "buildScreenshotResponse L w base64Png label (JStr []) st
     = buildScreenshotResponse L w base64Png label JUndefined st"
    by (simp add: buildScreenshotResponse_inline)
  show "snd (buildScreenshotResponse L w base64Png label (JStr []) st) = st"
    by (simp add: buildScreenshotResponse_inline)
  show "\<exists>annotation.
         fst (buildScreenshotResponse L w base64Png label (JStr []) st)
           = Resolved (successResponse
               (camera @ '' '' @ label @ '' ('' @ digits ((length base64Png + 512) div 1024)
                  @ ''KB)'' @ annotation @ [CHR 0x0A] @ take (MAX_SCREENSHOT_CHARS L) base64Png))"
  proof (cases "MAX_SCREENSHOT_CHARS L < length base64Png")
    case True
    show ?thesis
      by (rule exI [where x = "'' [truncated]''"])
        (simp add: buildScreenshotResponse_inline True)
  next
    case False
    show ?thesis
      by (rule exI [where x = "if length base64Png > WARNING_THRESHOLD_CHARS L
                               then '' [large]'' else []"])
        (use False in \<open>simp add: buildScreenshotResponse_inline\<close>)
  qed
qed

theorem C8_empty_path_is_inline_witness:
  "buildScreenshotResponse example_limits (example_world Pending) ''QUI'' ''page'' (JStr [])
      initial_state
     = (Resolved (Success (camera @ '' page (0KB) [large]'' @ [CHR 0x0A] @ ''QUI'')),
        initial_state)"
proof -
  have "buildScreenshotResponse example_limits (example_world Pending) ''QUI'' ''page''
      JUndefined initial_state
     = (Resolved (Success (camera @ '' page (0KB) [large]'' @ [CHR 0x0A] @ ''QUI'')),
        initial_state)"
    by (simp add: buildScreenshotResponse_inline example_limits_def digits_small
        successResponse_def)
  then show ?thesis
    by (simp only: C8_empty_path_is_inline [THEN conjunct1])
qed

text \<open>
  C9. Every success message carries, right after the label, the size
  \<open>Math.round(length / 1024)\<close> of the whole input; a \<open>[truncated]\<close> message reports the
  size of the input and not of the prefix it emits. The rounded quotient is
  \<open>(length + 512) div 1024\<close>.
\<close>

theorem C9_size_of_full_input:
  "(\<forall>r. fst (buildScreenshotResponse L w base64Png label filePath st) = Resolved r \<longrightarrow>
      (\<exists>rest. r = successResponse
         (camera @ '' '' @ label @ '' (''
            @ decimal (Math_round (real (length base64Png) / 1024)) @ ''KB)'' @ rest)))
   \<and> (MAX_SCREENSHOT_CHARS L < length base64Png \<longrightarrow>
        buildScreenshotResponse L w base64Png label JUndefined st
          = (Resolved (successResponse
               (camera @ '' '' @ label @ '' (''
                  @ decimal (Math_round (real (length base64Png) / 1024))
                  @ ''KB) [truncated]'' @ [CHR 0x0A]
                  @ take (MAX_SCREENSHOT_CHARS L) base64Png)), st))
   \<and> Math_round (real (length base64Png) / 1024) = int ((length base64Png + 512) div 1024)"
proof (intro conjI allI impI)
  fix r
  assume r: "fst (buildScreenshotResponse L w base64Png label filePath st) = Resolved r"
  show "\<exists>rest. r = successResponse
         (camera @ '' '' @ label @ '' (''
            @ decimal (Math_round (real (length base64Png) / 1024)) @ ''KB)'' @ rest)"
  proof (cases filePath rule: filePath_cases)
    case inline
    with r show ?thesis
      unfolding decimal_sizeKB
      by (auto simp add: buildScreenshotResponse_inline split: if_splits)
  next
    case (string p)
    show ?thesis
    proof (cases "writeFile_fate w (resolve w p) (Buffer_from_base64 base64Png)")
      case Written
      with r string show ?thesis
        unfolding decimal_sizeKB
        by (auto simp add: buildScreenshotResponse_written)
    next
      case (Failed cause progress)
      with r string show ?thesis
        by (simp add: buildScreenshotResponse_refused)
    next
      case (Hangs progress)
      with r string show ?thesis
        by (simp add: buildScreenshotResponse_hangs)
    qed
  next
    case other
    with r show ?thesis
      by (simp add: buildScreenshotResponse_not_string split: sum.splits)
  qed
next
  assume "MAX_SCREENSHOT_CHARS L < length base64Png"
  then show "buildScreenshotResponse L w base64Png label JUndefined st
          = (Resolved (successResponse
               (camera @ '' '' @ label @ '' (''
                  @ decimal (Math_round (real (length base64Png) / 1024))
                  @ ''KB) [truncated]'' @ [CHR 0x0A]
                  @ take (MAX_SCREENSHOT_CHARS L) base64Png)), st)"
    by (simp only: decimal_sizeKB) (simp add: buildScreenshotResponse_inline)
next
  show "Math_round (real (length base64Png) / 1024) = int ((length base64Png + 512) div 1024)"
    by (rule Math_round_div_1024)
qed

theorem C9_size_of_full_input_witness:
  "MAX_SCREENSHOT_CHARS example_limits < length (replicate 1536 CHR ''A'')
   \<and> buildScreenshotResponse example_limits (example_world Pending) (replicate 1536 CHR ''A'')
         ''page'' JUndefined initial_state
       = (Resolved (Success (camera @ '' page (2KB) [truncated]'' @ [CHR 0x0A] @ ''AAAA'')),
          initial_state)
   \<and> Math_round (real (length (replicate 1536 CHR ''A'')) / 1024) = 2"
proof -
  let ?s = "replicate 1536 CHR ''A''"
  have h: "MAX_SCREENSHOT_CHARS example_limits < length ?s"
    by (simp add: example_limits_def)
  have r: "Math_round (real (length ?s) / 1024) = 2"
    by (simp only: Math_round_div_1024 length_replicate)
  have "replicate 4 CHR ''A'' = ''AAAA''"
    by (simp add: numeral_eq_Suc)
  then have t: "take (MAX_SCREENSHOT_CHARS example_limits) ?s = ''AAAA''"
    by (simp add: example_limits_def)
  have d: "decimal 2 = ''2''"
    by (simp add: decimal_def digits_small)
  have "buildScreenshotResponse example_limits (example_world Pending) ?s ''page''
      JUndefined initial_state
    = (Resolved (successResponse
         (camera @ '' '' @ ''page'' @ '' ('' @ decimal (Math_round (real (length ?s) / 1024))
            @ ''KB) [truncated]'' @ [CHR 0x0A]
            @ take (MAX_SCREENSHOT_CHARS example_limits) ?s)), initial_state)"
    using h
    by (rule C9_size_of_full_input [of example_limits "example_world Pending" ?s "''page''"
      JUndefined initial_state, THEN conjunct2, THEN conjunct1, THEN mp])
  then have "buildScreenshotResponse example_limits (example_world Pending) ?s ''page''
      JUndefined initial_state
    = (Resolved (Success (camera @ '' page (2KB) [truncated]'' @ [CHR 0x0A] @ ''AAAA'')),
       initial_state)"
    by (simp only: r t d successResponse_def append.simps)
  with h r show ?thesis by (intro conjI)
qed




text \<open>
  C2 (as amended). For every non-empty file path at which the write goes through,
  \<open>buildScreenshotResponse\<close> writes the decoded bytes to the resolved absolute path and
  resolves with a success message made of the label, the size and that absolute path (the
  data enters it through its length only); the file then holds \<open>Buffer.from(base64Png,
  'base64')\<close>, and when \<open>base64Png\<close> is the base64 encoding of some bytes, encoding the
  file again gives \<open>base64Png\<close> back. A write that fails makes the function throw
  \<open>Failed to save screenshot to <filePath>: <cause>\<close>, and an empty file path is treated as
  no file path.
\<close>

theorem C2_saved_file_round_trip:
  "(filePath \<noteq> []
      \<and> writeFile_fate w (resolve w filePath) (Buffer_from_base64 base64Png) = Written \<longrightarrow>
      buildScreenshotResponse L w base64Png label (JStr filePath) st
        = (Resolved (successResponse
             (camera @ '' '' @ label @ '' ('' @ digits ((length base64Png + 512) div 1024)
                @ ''KB) saved to '' @ resolve w filePath)),
           st\<lparr>files := (files st)(resolve w filePath \<mapsto> Buffer_from_base64 base64Png)\<rparr>)
      \<and> readFile (snd (buildScreenshotResponse L w base64Png label (JStr filePath) st))
            (resolve w filePath)
          = Some (Buffer_from_base64 base64Png)
      \<and> (base64Png = toString_base64 bytes \<longrightarrow>
            map_option toString_base64
              (readFile (snd (buildScreenshotResponse L w base64Png label (JStr filePath) st))
                 (resolve w filePath))
            = Some base64Png))
   \<and> (filePath \<noteq> []
        \<and> writeFile_fate w (resolve w filePath) (Buffer_from_base64 base64Png)
            = Failed cause progress \<longrightarrow>
        fst (buildScreenshotResponse L w base64Png label (JStr filePath) st)
          = Rejected (Error (''Failed to save screenshot to '' @ filePath @ '': '' @ cause)))
   \<and> buildScreenshotResponse L w base64Png label (JStr []) st
       = buildScreenshotResponse L w base64Png label JUndefined st"
proof (intro conjI impI)
  assume a: "filePath \<noteq> []
      \<and> writeFile_fate w (resolve w filePath) (Buffer_from_base64 base64Png) = Written"
  then have run: "buildScreenshotResponse L w base64Png label (JStr filePath) st
        = (Resolved (successResponse
             (camera @ '' '' @ label @ '' ('' @ digits ((length base64Png + 512) div 1024)
                @ ''KB) saved to '' @ resolve w filePath)),
           st\<lparr>files := (files st)(resolve w filePath \<mapsto> Buffer_from_base64 base64Png)\<rparr>)"
    by (simp add: buildScreenshotResponse_written)
  then show "buildScreenshotResponse L w base64Png label (JStr filePath) st
        = (Resolved (successResponse
             (camera @ '' '' @ label @ '' ('' @ digits ((length base64Png + 512) div 1024)
                @ ''KB) saved to '' @ resolve w filePath)),
           st\<lparr>files := (files st)(resolve w filePath \<mapsto> Buffer_from_base64 base64Png)\<rparr>)" .
  show stored: "readFile (snd (buildScreenshotResponse L w base64Png label (JStr filePath) st))
            (resolve w filePath)
          = Some (Buffer_from_base64 base64Png)"
    by (simp add: run readFile_def)
  assume e: "base64Png = toString_base64 bytes"
  have "Buffer_from_base64 base64Png = bytes"
    by (simp only: e Buffer_from_base64_toString_base64)
  with stored e show "map_option toString_base64
      (readFile (snd (buildScreenshotResponse L w base64Png label (JStr filePath) st))
         (resolve w filePath))
    = Some base64Png"
    by simp
next
  assume "filePath \<noteq> []
        \<and> writeFile_fate w (resolve w filePath) (Buffer_from_base64 base64Png)
            = Failed cause progress"
  then show "fst (buildScreenshotResponse L w base64Png label (JStr filePath) st)
          = Rejected (Error (''Failed to save screenshot to '' @ filePath @ '': '' @ cause))"
    by (simp add: buildScreenshotResponse_refused)
next
  show "buildScreenshotResponse L w base64Png label (JStr []) st
       = buildScreenshotResponse L w base64Png label JUndefined st"
    by (simp add: buildScreenshotResponse_inline)
qed

theorem C2_saved_file_round_trip_witness:
  "''/tmp/out.png'' \<noteq> []
   \<and> writeFile_fate (example_world Pending) (resolve (example_world Pending) ''/tmp/out.png'')
         (Buffer_from_base64 ''QUI='') = Written
   \<and> ''QUI='' = toString_base64 [0x41, 0x42]
   \<and> fst (buildScreenshotResponse example_limits (example_world Pending) ''QUI='' ''page''
            (JStr ''/tmp/out.png'') initial_state)
       = Resolved (Success (camera @ '' page (0KB) saved to /tmp/out.png''))
   \<and> readFile (snd (buildScreenshotResponse example_limits (example_world Pending) ''QUI=''
                      ''page'' (JStr ''/tmp/out.png'') initial_state)) ''/tmp/out.png''
       = Some [0x41, 0x42]
   \<and> map_option toString_base64
         (readFile (snd (buildScreenshotResponse example_limits (example_world Pending) ''QUI=''
                          ''page'' (JStr ''/tmp/out.png'') initial_state)) ''/tmp/out.png'')
       = Some ''QUI=''
   \<and> writeFile_fate (example_world Pending) (resolve (example_world Pending) ''/ro/x.png'')
         (Buffer_from_base64 ''QUI='') = Failed ''EACCES: permission denied'' None
   \<and> fst (buildScreenshotResponse example_limits (example_world Pending) ''QUI='' ''page''
            (JStr ''/ro/x.png'') initial_state)
       = Rejected (Error ''Failed to save screenshot to /ro/x.png: EACCES: permission denied'')"
proof -
  let ?w = "example_world Pending"
  have p: "resolve ?w ''/tmp/out.png'' = ''/tmp/out.png''"
    by (simp add: example_world_def)
  have h1: "''/tmp/out.png'' \<noteq> []" by simp
  have h2: "writeFile_fate ?w (resolve ?w ''/tmp/out.png'') (Buffer_from_base64 ''QUI='')
              = Written"
    by (simp add: example_world_def)
  have h3: "writeFile_fate ?w (resolve ?w ''/ro/x.png'') (Buffer_from_base64 ''QUI='')
              = Failed ''EACCES: permission denied'' None"
    by (simp add: example_world_def)
  have e: "''QUI='' = toString_base64 [0x41, 0x42]"
    by (simp only: toString_base64_AB)
  have b: "Buffer_from_base64 ''QUI='' = [0x41, 0x42]"
    by (simp only: e Buffer_from_base64_toString_base64)
  from h1 h2 have a: "''/tmp/out.png'' \<noteq> []
      \<and> writeFile_fate ?w (resolve ?w ''/tmp/out.png'') (Buffer_from_base64 ''QUI='') = Written"
    by (intro conjI)
  note T = C2_saved_file_round_trip [of "''/tmp/out.png''" ?w "''QUI=''" example_limits
      "''page''" initial_state "[0x41, 0x42]", THEN conjunct1, THEN mp, OF a]
  have 1: "fst (buildScreenshotResponse example_limits ?w ''QUI='' ''page''
            (JStr ''/tmp/out.png'') initial_state)
       = Resolved (Success (camera @ '' page (0KB) saved to /tmp/out.png''))"
    by (simp add: T [THEN conjunct1] p digits_small successResponse_def)
  have 2: "readFile (snd (buildScreenshotResponse example_limits ?w ''QUI=''
                      ''page'' (JStr ''/tmp/out.png'') initial_state)) ''/tmp/out.png''
       = Some [0x41, 0x42]"
    using T [THEN conjunct2, THEN conjunct1] by (simp only: p b)
  have 3: "map_option toString_base64
         (readFile (snd (buildScreenshotResponse example_limits ?w ''QUI=''
                          ''page'' (JStr ''/tmp/out.png'') initial_state)) ''/tmp/out.png'')
       = Some ''QUI=''"
    using T [THEN conjunct2, THEN conjunct2, THEN mp, OF e] by (simp only: p)
  have "''/ro/x.png'' \<noteq> []
        \<and> writeFile_fate ?w (resolve ?w ''/ro/x.png'') (Buffer_from_base64 ''QUI='')
            = Failed ''EACCES: permission denied'' None"
    using h3 by simp
  then have "fst (buildScreenshotResponse example_limits ?w ''QUI='' ''page''
            (JStr ''/ro/x.png'') initial_state)
       = Rejected (Error (''Failed to save screenshot to '' @ ''/ro/x.png'' @ '': ''
                            @ ''EACCES: permission denied''))"
    by (rule C2_saved_file_round_trip [THEN conjunct2, THEN conjunct1, THEN mp])
  then have 4: "fst (buildScreenshotResponse example_limits ?w ''QUI='' ''page''
            (JStr ''/ro/x.png'') initial_state)
       = Rejected (Error ''Failed to save screenshot to /ro/x.png: EACCES: permission denied'')"
    by simp
  from h1 h2 e 1 2 3 h3 4 show ?thesis by (intro conjI)
qed

text \<open>
  C2 as stated fails in three ways: an empty file path is falsy, so the data comes back
  inline and nothing is written; a refused write makes the call throw; and a string that
  is not the encoder's own output (here one without padding) is decoded leniently, so the
  file encodes to a different string.
\<close>

theorem C2_no_round_trip_in_general:
  "fst (buildScreenshotResponse example_limits (example_world Pending) ''QUJD'' ''page''
          (JStr []) initial_state)
     = Resolved (Success (camera @ '' page (0KB) [large]'' @ [CHR 0x0A] @ ''QUJD''))
   \<and> readFile (snd (buildScreenshotResponse example_limits (example_world Pending) ''QUJD''
                      ''page'' (JStr []) initial_state))
         (resolve (example_world Pending) []) = None
   \<and> fst (buildScreenshotResponse example_limits (example_world Pending) ''QUJD'' ''page''
            (JStr ''/ro/x.png'') initial_state)
       = Rejected (Error ''Failed to save screenshot to /ro/x.png: EACCES: permission denied'')
   \<and> readFile (snd (buildScreenshotResponse example_limits (example_world Pending) ''QUI''
                      ''page'' (JStr ''/tmp/out.png'') initial_state)) ''/tmp/out.png''
       = Some [0x41, 0x42]
   \<and> toString_base64 [0x41, 0x42] = ''QUI=''
   \<and> ''QUI='' \<noteq> ''QUI''"
proof (intro conjI)
  show "fst (buildScreenshotResponse example_limits (example_world Pending) ''QUJD'' ''page''
          (JStr []) initial_state)
     = Resolved (Success (camera @ '' page (0KB) [large]'' @ [CHR 0x0A] @ ''QUJD''))"
    by (simp add: buildScreenshotResponse_inline example_limits_def digits_small
        successResponse_def)
  show "readFile (snd (buildScreenshotResponse example_limits (example_world Pending) ''QUJD''
                      ''page'' (JStr []) initial_state))
         (resolve (example_world Pending) []) = None"
    by (simp add: buildScreenshotResponse_inline readFile_def initial_state_def)
  show "fst (buildScreenshotResponse example_limits (example_world Pending) ''QUJD'' ''page''
            (JStr ''/ro/x.png'') initial_state)
       = Rejected (Error ''Failed to save screenshot to /ro/x.png: EACCES: permission denied'')"
    by (simp only: example_write_refused fst_conv)
  show "readFile (snd (buildScreenshotResponse example_limits (example_world Pending) ''QUI''
                      ''page'' (JStr ''/tmp/out.png'') initial_state)) ''/tmp/out.png''
       = Some [0x41, 0x42]"
    using buildScreenshotResponse_written [of "''/tmp/out.png''" "example_world Pending" "''QUI''"
        example_limits "''page''" initial_state]
    by (simp add: example_world_def readFile_def Buffer_from_base64_QUI)
  show "toString_base64 [0x41, 0x42] = ''QUI=''"
    by (rule toString_base64_AB)
  show "''QUI='' \<noteq> ''QUI''"
    by simp
qed

text \<open>
  C3. Neither handler ever raises, whatever the arguments, the world and the state: its
  outcome is never a rejection, and whenever the body of its outermost \<open>try\<close> throws an
  error (from validation, capture, invalid capture data or the file write), the handler
  resolves with the error envelope of that very error. In particular a rejected
  \<open>getFirefox\<close> or capture call ends in an error envelope, in both handlers.
\<close>

theorem C3_handlers_never_raise:
  "(\<forall>e. fst (handleScreenshotPage L w args st) \<noteq> Rejected e)
   \<and> (\<forall>e. fst (handleScreenshotByUid h L w args st) \<noteq> Rejected e)
   \<and> (\<forall>e. fst (handleScreenshotPage_try L w args st) = Rejected e \<longrightarrow>
          fst (handleScreenshotPage L w args st) = Resolved (errorResponse e)
          \<and> isError (errorResponse e))
   \<and> (\<forall>e. fst (handleScreenshotByUid_try h L w args st) = Rejected e \<longrightarrow>
          fst (handleScreenshotByUid h L w args st) = Resolved (errorResponse e)
          \<and> isError (errorResponse e))
   \<and> (\<forall>e. getFirefox w = Rejected e
            \<or> (\<exists>ff. getFirefox w = Resolved ff \<and> takeScreenshotPage ff = Rejected e) \<longrightarrow>
          fst (handleScreenshotPage L w args st) = Resolved (errorResponse e))
   \<and> (\<forall>e uid. property args ''uid'' = JStr uid \<and> uid \<noteq> []
          \<and> (getFirefox w = Rejected e
              \<or> (\<exists>ff. getFirefox w = Resolved ff \<and> takeScreenshotByUid ff uid = Rejected e)) \<longrightarrow>
          (\<exists>r. fst (handleScreenshotByUid h L w args st) = Resolved r \<and> isError r))"
proof -
  obtain o1 s1 where p: "handleScreenshotPage_try L w args st = (o1, s1)"
    by (cases "handleScreenshotPage_try L w args st")
  obtain o2 s2 where u: "handleScreenshotByUid_try h L w args st = (o2, s2)"
    by (cases "handleScreenshotByUid_try h L w args st")
  have 1: "\<forall>e. fst (handleScreenshotPage L w args st) \<noteq> Rejected e"
    unfolding handleScreenshotPage_def p by (cases o1) simp_all
  have 2: "\<forall>e. fst (handleScreenshotByUid h L w args st) \<noteq> Rejected e"
    unfolding handleScreenshotByUid_def u by (cases o2) simp_all
  have 3: "\<forall>e. fst (handleScreenshotPage_try L w args st) = Rejected e \<longrightarrow>
          fst (handleScreenshotPage L w args st) = Resolved (errorResponse e)
          \<and> isError (errorResponse e)"
    unfolding handleScreenshotPage_def p by (cases o1) (simp_all add: errorResponse_def)
  have 4: "\<forall>e. fst (handleScreenshotByUid_try h L w args st) = Rejected e \<longrightarrow>
          fst (handleScreenshotByUid h L w args st) = Resolved (errorResponse e)
          \<and> isError (errorResponse e)"
    unfolding handleScreenshotByUid_def u by (cases o2) (simp_all add: errorResponse_def)
  have 5: "\<forall>e. getFirefox w = Rejected e
            \<or> (\<exists>ff. getFirefox w = Resolved ff \<and> takeScreenshotPage ff = Rejected e) \<longrightarrow>
          fst (handleScreenshotPage L w args st) = Resolved (errorResponse e)"
  proof (intro allI impI)
    fix e
    assume "getFirefox w = Rejected e
            \<or> (\<exists>ff. getFirefox w = Resolved ff \<and> takeScreenshotPage ff = Rejected e)"
    then have "fst (handleScreenshotPage_try L w args st) = Rejected e"
      by (auto simp add: handleScreenshotPage_try_no_handle handleScreenshotPage_try_rejected)
    with 3 show "fst (handleScreenshotPage L w args st) = Resolved (errorResponse e)"
      by blast
  qed
  have 6: "\<forall>e uid. property args ''uid'' = JStr uid \<and> uid \<noteq> []
          \<and> (getFirefox w = Rejected e
              \<or> (\<exists>ff. getFirefox w = Resolved ff \<and> takeScreenshotByUid ff uid = Rejected e)) \<longrightarrow>
          (\<exists>r. fst (handleScreenshotByUid h L w args st) = Resolved r \<and> isError r)"
  proof (intro allI impI)
    fix e uid
    assume a: "property args ''uid'' = JStr uid \<and> uid \<noteq> []
          \<and> (getFirefox w = Rejected e
              \<or> (\<exists>ff. getFirefox w = Resolved ff \<and> takeScreenshotByUid ff uid = Rejected e))"
    then have "\<exists>e'. fst (handleScreenshotByUid_try h L w args st) = Rejected e'"
      by (auto simp add: handleScreenshotByUid_try_no_handle handleScreenshotByUid_try_with_uid
          handleScreenshotByUid_capture_rejected)
    then obtain e' where "fst (handleScreenshotByUid_try h L w args st) = Rejected e'" ..
    with 4 have "fst (handleScreenshotByUid h L w args st) = Resolved (errorResponse e')"
      and "isError (errorResponse e')"
      by blast+
    then show "\<exists>r. fst (handleScreenshotByUid h L w args st) = Resolved r \<and> isError r"
      by blast
  qed
  from 1 2 3 4 5 6 show ?thesis by (intro conjI)
qed

theorem C3_handlers_never_raise_witness:
  "fst (handleScreenshotPage_try example_limits
          (example_world (Rejected (Error ''Protocol error''))) JUndefined initial_state)
     = Rejected (Error ''Protocol error'')
   \<and> fst (handleScreenshotPage example_limits
            (example_world (Rejected (Error ''Protocol error''))) JUndefined initial_state)
       = Resolved (Failure ''Protocol error'')
   \<and> fst (handleScreenshotByUid_try (handleUidError_spec example_wording) example_limits
            (example_world (Rejected (Error ''Protocol error''))) JNull initial_state)
       = Rejected (Error ''Cannot destructure property 'uid' of 'args' as it is null.'')
   \<and> fst (handleScreenshotByUid (handleUidError_spec example_wording) example_limits
            (example_world (Rejected (Error ''Protocol error''))) JNull initial_state)
       = Resolved (Failure ''Cannot destructure property 'uid' of 'args' as it is null.'')"
proof -
  let ?w = "example_world (Rejected (Error ''Protocol error''))"
  let ?h = "handleUidError_spec example_wording"
  note T = C3_handlers_never_raise [of example_limits ?w _ initial_state ?h]
  have 1: "fst (handleScreenshotPage_try example_limits ?w JUndefined initial_state)
     = Rejected (Error ''Protocol error'')"
    by (simp add: handleScreenshotPage_try_def call_getFirefox_def call_takeScreenshotPage_def
        example_world_def)
  have 2: "fst (handleScreenshotPage example_limits ?w JUndefined initial_state)
       = Resolved (Failure ''Protocol error'')"
    using T [of JUndefined, THEN conjunct2, THEN conjunct2, THEN conjunct1, THEN spec, THEN mp,
        OF 1, THEN conjunct1]
    by (simp only: errorResponse_def jserror.sel)
  have 3: "fst (handleScreenshotByUid_try ?h example_limits ?w JNull initial_state)
       = Rejected (Error ''Cannot destructure property 'uid' of 'args' as it is null.'')"
    by (simp add: handleScreenshotByUid_try_def)
  have 4: "fst (handleScreenshotByUid ?h example_limits ?w JNull initial_state)
       = Resolved (Failure ''Cannot destructure property 'uid' of 'args' as it is null.'')"
    using T [of JNull, THEN conjunct2, THEN conjunct2, THEN conjunct2, THEN conjunct1,
        THEN spec, THEN mp, OF 3, THEN conjunct1]
    by (simp only: errorResponse_def jserror.sel)
  from 1 2 3 4 show ?thesis by (intro conjI)
qed

text \<open>
  C4. When \<open>uid\<close> is the empty string, absent or not a string, \<open>handleScreenshotByUid\<close>
  is to return an error envelope with the message \<open>uid required\<close> without invoking the
  automation collaborator. The code does not do so for a request without arguments:
  destructuring \<open>undefined\<close> throws before the test of \<open>uid\<close> (the statement has no
  \<open>|| {}\<close>, which \<open>handleScreenshotPage\<close> has), and the envelope carries the TypeError's
  message. No call is made, and the state is as it was.
\<close>

theorem C4_no_arguments_other_message:
  "typeof (property JUndefined ''uid'') \<noteq> ''string''
   \<and> handleScreenshotByUid (handleUidError_spec example_wording) example_limits
         (example_world Pending) JUndefined initial_state
       = (Resolved (Failure ''Cannot destructure property 'uid' of 'args' as it is undefined.''),
          initial_state)
   \<and> ''Cannot destructure property 'uid' of 'args' as it is undefined.'' \<noteq> ''uid required''"
  by (simp add: handleScreenshotByUid_def handleScreenshotByUid_try_def errorResponse_def)

text \<open>
  C7. In \<open>handleScreenshotByUid\<close>, with a non-empty string \<open>uid\<close> and a handle obtained,
  a capture call rejected with \<open>e\<close> makes the handler resolve with the error envelope of
  \<open>handleUidError e uid\<close>, after exactly the calls \<open>getFirefox\<close> and
  \<open>takeScreenshotByUid uid\<close>; with the translation the spec describes, a lookup-related
  \<open>e\<close> gives an error envelope whose message contains \<open>uid\<close>.
\<close>

theorem C7_capture_failure_translated:
  assumes "property args ''uid'' = JStr uid" and "uid \<noteq> []"
    and "getFirefox w = Resolved ff"
    and "takeScreenshotByUid ff uid = Rejected e"
  shows "handleScreenshotByUid h L w args st
           = (Resolved (errorResponse (h e uid)),
              st\<lparr>calls := calls st @ [GetFirefox, TakeScreenshotByUid uid]\<rparr>)
         \<and> (lookup_related k e \<longrightarrow>
               (\<exists>r. fst (handleScreenshotByUid (handleUidError_spec k) L w args st) = Resolved r
                     \<and> isError r \<and> sublist uid (content r)))"
proof -
  have run: "handleScreenshotByUid h L w args st
           = (Resolved (errorResponse (h e uid)),
              st\<lparr>calls := calls st @ [GetFirefox, TakeScreenshotByUid uid]\<rparr>)" for h
    unfolding handleScreenshotByUid_def
      handleScreenshotByUid_try_with_uid [OF assms(1) assms(2) assms(3)]
      handleScreenshotByUid_capture_rejected [OF assms(4)]
    by simp
  have "\<exists>r. fst (handleScreenshotByUid (handleUidError_spec k) L w args st) = Resolved r
             \<and> isError r \<and> sublist uid (content r)"
    if "lookup_related k e"
  proof (intro exI conjI)
    show "fst (handleScreenshotByUid (handleUidError_spec k) L w args st)
            = Resolved (errorResponse (handleUidError_spec k e uid))"
      by (simp add: run)
    show "isError (errorResponse (handleUidError_spec k e uid))"
      by (simp add: errorResponse_def)
    show "sublist uid (content (errorResponse (handleUidError_spec k e uid)))"
      using that by (simp add: errorResponse_def handleUidError_spec_def sublist_middle)
  qed
  with run show ?thesis by blast
qed

theorem C7_capture_failure_translated_witness:
  "property (JObj [(''uid'', JStr ''e42'')]) ''uid'' = JStr ''e42''
   \<and> ''e42'' \<noteq> []
   \<and> lookup_related example_wording (Error ''element not found'')
   \<and> handleScreenshotByUid (handleUidError_spec example_wording) example_limits
         (example_world (Rejected (Error ''element not found'')))
         (JObj [(''uid'', JStr ''e42'')]) initial_state
       = (Resolved (Failure ''Element e42 is stale; take a new snapshot''),
          initial_state\<lparr>calls := [GetFirefox, TakeScreenshotByUid ''e42'']\<rparr>)
   \<and> sublist ''e42'' ''Element e42 is stale; take a new snapshot''"
proof -
  let ?e = "Error ''element not found''"
  let ?w = "example_world (Rejected ?e)"
  let ?h = "handleUidError_spec example_wording"
  have u: "property (JObj [(''uid'', JStr ''e42'')]) ''uid'' = JStr ''e42''"
    by simp
  have ne: "''e42'' \<noteq> []"
    by simp
  have ff: "getFirefox ?w
     = Resolved \<lparr>takeScreenshotPage = Rejected ?e, takeScreenshotByUid = (\<lambda>uid. Rejected ?e)\<rparr>"
    by (rule example_getFirefox)
  have rej: "takeScreenshotByUid
       \<lparr>takeScreenshotPage = Rejected ?e, takeScreenshotByUid = (\<lambda>uid. Rejected ?e)\<rparr> ''e42''
     = Rejected ?e"
    by simp
  have l: "lookup_related example_wording ?e"
    by (simp add: example_wording_def sublist_Cons_right)
  have t: "?h ?e ''e42'' = Error ''Element e42 is stale; take a new snapshot''"
    using l by (simp add: handleUidError_spec_def) (simp add: example_wording_def)
  note T = C7_capture_failure_translated [OF u ne ff rej, of ?h example_limits initial_state
      example_wording]
  have 1: "handleScreenshotByUid ?h example_limits ?w (JObj [(''uid'', JStr ''e42'')])
         initial_state
       = (Resolved (Failure ''Element e42 is stale; take a new snapshot''),
          initial_state\<lparr>calls := [GetFirefox, TakeScreenshotByUid ''e42'']\<rparr>)"
    unfolding T [THEN conjunct1] t by (simp add: errorResponse_def initial_state_def)
  have 2: "sublist ''e42'' ''Element e42 is stale; take a new snapshot''"
    using T [THEN conjunct2, THEN mp, OF l] unfolding 1 by simp
  from u ne l 1 2 show ?thesis by (intro conjI)
qed

text \<open>
  C10. In \<open>handleScreenshotByUid\<close> the error \<open>Invalid screenshot data\<close> and every error
  thrown by \<open>buildScreenshotResponse\<close> reach the envelope through \<open>handleUidError\<close>;
  in \<open>handleScreenshotPage\<close> the same two failures reach the envelope as they are.
\<close>

theorem C10_every_inner_failure_translated:
  assumes "property args ''uid'' = JStr uid" and "uid \<noteq> []"
    and "getFirefox w = Resolved ff"
  shows "(takeScreenshotByUid ff uid = Resolved v \<and> (\<not> truthy v \<or> typeof v \<noteq> ''string'')
            \<longrightarrow> fst (handleScreenshotByUid h L w args st)
                  = Resolved (errorResponse (h (Error ''Invalid screenshot data'') uid)))
         \<and> (takeScreenshotByUid ff uid = Resolved (JStr s) \<and> s \<noteq> []
             \<and> fst (buildScreenshotResponse L w s uid (property args ''filePath'')
                       (st\<lparr>calls := calls st @ [GetFirefox, TakeScreenshotByUid uid]\<rparr>))
                 = Rejected e
            \<longrightarrow> fst (handleScreenshotByUid h L w args st) = Resolved (errorResponse (h e uid)))
         \<and> (takeScreenshotPage ff = Resolved v \<and> (\<not> truthy v \<or> typeof v \<noteq> ''string'')
            \<longrightarrow> fst (handleScreenshotPage L w args' st)
                  = Resolved (errorResponse (Error ''Invalid screenshot data'')))
         \<and> (takeScreenshotPage ff = Resolved (JStr s) \<and> s \<noteq> []
             \<and> fst (buildScreenshotResponse L w s ''page''
                       (property (if truthy args' then args' else JObj []) ''filePath'')
                       (st\<lparr>calls := calls st @ [GetFirefox, TakeScreenshotPage]\<rparr>))
                 = Rejected e
            \<longrightarrow> fst (handleScreenshotPage L w args' st) = Resolved (errorResponse e))"
proof (intro conjI impI)
  assume a: "takeScreenshotByUid ff uid = Resolved v \<and> (\<not> truthy v \<or> typeof v \<noteq> ''string'')"
  then have c: "takeScreenshotByUid ff uid = Resolved v" by (rule conjunct1)
  from a show "fst (handleScreenshotByUid h L w args st)
                  = Resolved (errorResponse (h (Error ''Invalid screenshot data'') uid))"
    unfolding handleScreenshotByUid_def
      handleScreenshotByUid_try_with_uid [OF assms]
      handleScreenshotByUid_capture_resolved [OF c]
    by auto
next
  assume a: "takeScreenshotByUid ff uid = Resolved (JStr s) \<and> s \<noteq> []
             \<and> fst (buildScreenshotResponse L w s uid (property args ''filePath'')
                       (st\<lparr>calls := calls st @ [GetFirefox, TakeScreenshotByUid uid]\<rparr>))
                 = Rejected e"
  then have c: "takeScreenshotByUid ff uid = Resolved (JStr s)" by (rule conjunct1)
  obtain o1 s1 where b: "buildScreenshotResponse L w s uid (property args ''filePath'')
      (st\<lparr>calls := calls st @ [GetFirefox, TakeScreenshotByUid uid]\<rparr>) = (o1, s1)"
    by (cases "buildScreenshotResponse L w s uid (property args ''filePath'')
      (st\<lparr>calls := calls st @ [GetFirefox, TakeScreenshotByUid uid]\<rparr>)")
  with a have o1: "o1 = Rejected e" and s: "s \<noteq> []" by simp_all
  show "fst (handleScreenshotByUid h L w args st) = Resolved (errorResponse (h e uid))"
    unfolding handleScreenshotByUid_def
      handleScreenshotByUid_try_with_uid [OF assms]
      handleScreenshotByUid_capture_resolved [OF c]
    using s b o1 by simp
next
  assume a: "takeScreenshotPage ff = Resolved v \<and> (\<not> truthy v \<or> typeof v \<noteq> ''string'')"
  then have c: "takeScreenshotPage ff = Resolved v" by (rule conjunct1)
  from a show "fst (handleScreenshotPage L w args' st)
                  = Resolved (errorResponse (Error ''Invalid screenshot data''))"
    unfolding handleScreenshotPage_def handleScreenshotPage_try_resolved [OF assms(3) c]
    by auto
next
  assume a: "takeScreenshotPage ff = Resolved (JStr s) \<and> s \<noteq> []
             \<and> fst (buildScreenshotResponse L w s ''page''
                       (property (if truthy args' then args' else JObj []) ''filePath'')
                       (st\<lparr>calls := calls st @ [GetFirefox, TakeScreenshotPage]\<rparr>))
                 = Rejected e"
  then have c: "takeScreenshotPage ff = Resolved (JStr s)" by (rule conjunct1)
  obtain o1 s1 where b: "buildScreenshotResponse L w s ''page''
      (property (if truthy args' then args' else JObj []) ''filePath'')
      (st\<lparr>calls := calls st @ [GetFirefox, TakeScreenshotPage]\<rparr>) = (o1, s1)"
    by (cases "buildScreenshotResponse L w s ''page''
      (property (if truthy args' then args' else JObj []) ''filePath'')
      (st\<lparr>calls := calls st @ [GetFirefox, TakeScreenshotPage]\<rparr>)")
  with a have o1: "o1 = Rejected e" and s: "s \<noteq> []" by simp_all
  show "fst (handleScreenshotPage L w args' st) = Resolved (errorResponse e)"
    unfolding handleScreenshotPage_def handleScreenshotPage_try_resolved [OF assms(3) c]
    using s b o1 by simp
qed

theorem C10_every_inner_failure_translated_witness:
  "property (JObj [(''uid'', JStr ''e42''), (''filePath'', JStr ''/ro/x.png'')]) ''uid''
     = JStr ''e42''
   \<and> ''e42'' \<noteq> []
   \<and> fst (handleScreenshotByUid
            (handleUidError_spec (example_wording\<lparr>lookup_related := (\<lambda>e. True)\<rparr>))
            example_limits (example_world (Resolved (JStr ''QUJD'')))
            (JObj [(''uid'', JStr ''e42''), (''filePath'', JStr ''/ro/x.png'')]) initial_state)
       = Resolved (Failure ''Element e42 is stale; take a new snapshot'')
   \<and> fst (handleScreenshotPage example_limits (example_world (Resolved (JStr ''QUJD'')))
            (JObj [(''uid'', JStr ''e42''), (''filePath'', JStr ''/ro/x.png'')]) initial_state)
       = Resolved (Failure ''Failed to save screenshot to /ro/x.png: EACCES: permission denied'')"
proof -
  let ?args = "JObj [(''uid'', JStr ''e42''), (''filePath'', JStr ''/ro/x.png'')]"
  let ?c = "Resolved (JStr ''QUJD'')"
  let ?w = "example_world ?c"
  let ?ff = "\<lparr>takeScreenshotPage = ?c, takeScreenshotByUid = (\<lambda>uid. ?c)\<rparr>"
  let ?h = "handleUidError_spec (example_wording\<lparr>lookup_related := (\<lambda>e. True)\<rparr>)"
  let ?e = "Error ''Failed to save screenshot to /ro/x.png: EACCES: permission denied''"
  have u: "property ?args ''uid'' = JStr ''e42''"
    by simp
  have ne: "''e42'' \<noteq> []"
    by simp
  have ff: "getFirefox ?w = Resolved ?ff"
    by (rule example_getFirefox)
  note T = C10_every_inner_failure_translated [OF u ne ff, of _ ?h example_limits initial_state
      "''QUJD''" ?e ?args]
  have a: "takeScreenshotByUid ?ff ''e42'' = Resolved (JStr ''QUJD'') \<and> ''QUJD'' \<noteq> []
           \<and> fst (buildScreenshotResponse example_limits ?w ''QUJD'' ''e42''
                    (property ?args ''filePath'')
                    (initial_state\<lparr>calls := calls initial_state
                        @ [GetFirefox, TakeScreenshotByUid ''e42'']\<rparr>))
               = Rejected ?e"
    by (simp add: example_write_refused)
  have b: "takeScreenshotPage ?ff = Resolved (JStr ''QUJD'') \<and> ''QUJD'' \<noteq> []
           \<and> fst (buildScreenshotResponse example_limits ?w ''QUJD'' ''page''
                    (property (if truthy ?args then ?args else JObj []) ''filePath'')
                    (initial_state\<lparr>calls := calls initial_state
                        @ [GetFirefox, TakeScreenshotPage]\<rparr>))
               = Rejected ?e"
    by (simp add: example_write_refused)
  have t: "?h ?e ''e42'' = Error ''Element e42 is stale; take a new snapshot''"
    by (simp add: handleUidError_spec_def example_wording_def)
  have 1: "fst (handleScreenshotByUid ?h example_limits ?w ?args initial_state)
       = Resolved (Failure ''Element e42 is stale; take a new snapshot'')"
    using T [THEN conjunct2, THEN conjunct1, THEN mp, OF a]
    by (simp only: t errorResponse_def jserror.sel)
  have 2: "fst (handleScreenshotPage example_limits ?w ?args initial_state)
       = Resolved (Failure ''Failed to save screenshot to /ro/x.png: EACCES: permission denied'')"
    using T [THEN conjunct2, THEN conjunct2, THEN conjunct2, THEN mp, OF b]
    by (simp only: errorResponse_def jserror.sel)
  from u ne 1 2 show ?thesis by (intro conjI)
qed

end
